theory Spec2Isabelle
  imports Main "HOL-Library.Word"
begin

section \<open>Image stream strategy: data model\<close>

text \<open>
  The Go package \<^verbatim>\<open>pkg/image/registry/imagestream\<close> (file \<^verbatim>\<open>strategy.go\<close>) works on
  the API types of \<^verbatim>\<open>pkg/image/api\<close> and of Kubernetes. The records below carry the
  fields that \<^verbatim>\<open>strategy.go\<close> reads or writes. A Go \<^verbatim>\<open>int64\<close> is a 64-bit word read in
  two's complement, a Go pointer that is only tested for nil and dereferenced is an
  \<open>option\<close>, a Go string is a list of bytes, and a Go map is a partial function (a nil
  map and an empty map are both \<open>Map.empty\<close>: the code only reads, ranges over and,
  after allocation, writes maps, and the semantic deep equality of Kubernetes does
  not tell them apart).
\<close>

type_synonym int64 = "64 word"

text \<open>A time stamp, counted from the zero instant of Go's \<^verbatim>\<open>time.Time\<close>.\<close>

type_synonym Time = int

definition IsZero :: "Time \<Rightarrow> bool" where
  "IsZero t = (t = 0)"

text \<open>\<^verbatim>\<open>kapi.ObjectReference\<close>: the fields used by the strategy.\<close>

record ObjectReference =
  ref_Kind :: string
  ref_Namespace :: string
  ref_Name :: string

text \<open>\<^verbatim>\<open>api.TagReference\<close>: \<^verbatim>\<open>From *kapi.ObjectReference\<close>, \<^verbatim>\<open>Reference bool\<close>,
  \<^verbatim>\<open>Generation *int64\<close>.\<close>

record TagReference =
  tr_From :: "ObjectReference option"
  tr_Reference :: bool
  tr_Generation :: "int64 option"

text \<open>\<^verbatim>\<open>api.TagEvent\<close> and \<^verbatim>\<open>api.TagEventList\<close>.\<close>

record TagEvent =
  ev_Created :: Time
  ev_DockerImageReference :: string
  ev_Image :: string
  ev_Generation :: int64

record TagEventList =
  Items :: "TagEvent list"

record ImageStreamSpec =
  spec_DockerImageRepository :: string
  spec_Tags :: "string \<rightharpoonup> TagReference"

record ImageStreamStatus =
  status_DockerImageRepository :: string
  status_Tags :: "string \<rightharpoonup> TagEventList"

text \<open>\<^verbatim>\<open>api.ImageStream\<close>: the object meta data used here, the spec and the status.\<close>

record ImageStream =
  Name :: string
  Namespace :: string
  Generation :: int64
  CreationTimestamp :: Time
  Spec :: ImageStreamSpec
  Status :: ImageStreamStatus

text \<open>The zero value of \<^verbatim>\<open>kapi.ObjectReference\<close>, written \<^verbatim>\<open>&kapi.ObjectReference{}\<close>.\<close>

definition emptyObjectReference :: ObjectReference where
  "emptyObjectReference = \<lparr>ref_Kind = [], ref_Namespace = [], ref_Name = []\<rparr>"

section \<open>Change detection on tag references\<close>

text \<open>
  \<^verbatim>\<open>tagRefGenerationChanged\<close>: true if and only if both generations are set, they
  differ, and the new one is zero.
\<close>

definition tagRefGenerationChanged :: "TagReference \<Rightarrow> TagReference \<Rightarrow> bool" where
  "tagRefGenerationChanged old next =
     (case (tr_Generation old, tr_Generation next) of
        (Some og, Some ng) \<Rightarrow>
          (if og = ng then False
           else if ng = 0 then True
           else False)
      | _ \<Rightarrow> False)"

text \<open>
  \<^verbatim>\<open>tagRefChanged\<close>: the guards on \<^verbatim>\<open>next.From\<close>, the defaulting of both
  namespaces to the stream's namespace, the comparison of namespaces and names, and
  at last the generation rule. The kinds are read only in the second guard.
\<close>

definition tagRefChanged :: "TagReference \<Rightarrow> TagReference \<Rightarrow> string \<Rightarrow> bool" where
  "tagRefChanged old next streamNamespace =
     (case tr_From next of
        None \<Rightarrow> False
      | Some nextFrom \<Rightarrow>
          if length (ref_Kind nextFrom) = 0 \<and> length (ref_Name nextFrom) = 0 then False
          else
            let oldFrom = (case tr_From old of None \<Rightarrow> emptyObjectReference | Some f \<Rightarrow> f);
                oldNamespace = (if length (ref_Namespace oldFrom) = 0 then streamNamespace
                                else ref_Namespace oldFrom);
                nextNamespace = (if length (ref_Namespace nextFrom) = 0 then streamNamespace
                                 else ref_Namespace nextFrom)
            in if oldNamespace \<noteq> nextNamespace then True
               else if ref_Name oldFrom \<noteq> ref_Name nextFrom then True
               else tagRefGenerationChanged old next)"

text \<open>The namespace of a reference after defaulting, and the reference of the old
  side (the zero reference when \<^verbatim>\<open>old.From\<close> is nil), as used in the statements below.\<close>

definition normalizedNamespace :: "ObjectReference \<Rightarrow> string \<Rightarrow> string" where
  "normalizedNamespace r streamNamespace =
     (if ref_Namespace r = [] then streamNamespace else ref_Namespace r)"

definition fromOrZero :: "TagReference \<Rightarrow> ObjectReference" where
  "fromOrZero t = (case tr_From t of None \<Rightarrow> emptyObjectReference | Some f \<Rightarrow> f)"

definition bothGenerationsSetNewZero :: "TagReference \<Rightarrow> TagReference \<Rightarrow> bool" where
  "bothGenerationsSetNewZero old next =
     (case tr_Generation old of
        None \<Rightarrow> False
      | Some og \<Rightarrow> (case tr_Generation next of
                     None \<Rightarrow> False
                   | Some ng \<Rightarrow> og \<noteq> ng \<and> ng = 0))"

section \<open>Generic range loop over a map\<close>

text \<open>
  Several functions of the strategy range over a Go map and store a rewritten copy
  of the entry under the key just visited. The order of a Go range over a map is
  not fixed; \<open>rangeLoop\<close> runs the loop in a given order of the keys, and
  \<open>rangeUpdate\<close> is its result, which the properties below show to be the same for
  every order that visits each key once.
\<close>

fun rangeLoop :: "('k \<Rightarrow> 'v \<Rightarrow> 'v) \<Rightarrow> 'k list \<Rightarrow> ('k \<rightharpoonup> 'v) \<Rightarrow> ('k \<rightharpoonup> 'v)" where
  "rangeLoop body [] m = m"
| "rangeLoop body (k # ks) m =
     rangeLoop body ks (case m k of None \<Rightarrow> m | Some v \<Rightarrow> m(k \<mapsto> body k v))"

definition rangeUpdate :: "('k \<Rightarrow> 'v \<Rightarrow> 'v) \<Rightarrow> ('k \<rightharpoonup> 'v) \<Rightarrow> ('k \<rightharpoonup> 'v)" where
  "rangeUpdate body m = (\<lambda>k. map_option (body k) (m k))"

section \<open>The derived repository string\<close>

text \<open>\<^verbatim>\<open>kapi.NamespaceDefault\<close> of Kubernetes.\<close>

definition NamespaceDefault :: string where
  "NamespaceDefault = ''default''"

text \<open>\<^verbatim>\<open>api.DockerImageReference\<close>, with the fields the strategy fills in. Its method
  \<^verbatim>\<open>String()\<close> belongs to the API package and is a parameter \<open>refString\<close> of the
  functions below.\<close>

record DockerImageReference =
  dir_Registry :: string
  dir_Namespace :: string
  dir_Name :: string

text \<open>\<^verbatim>\<open>Strategy\<close>: \<open>defaultRegistry\<close> is the pair returned by
  \<^verbatim>\<open>s.defaultRegistry.DefaultRegistry()\<close>.\<close>

record Strategy =
  defaultRegistry :: "string \<times> bool"

text \<open>
  \<^verbatim>\<open>dockerImageRepository\<close> takes the stream by pointer and may assign its namespace,
  so the model returns the string together with the stream.
\<close>

definition dockerImageRepository ::
  "(DockerImageReference \<Rightarrow> string) \<Rightarrow> Strategy \<Rightarrow> ImageStream \<Rightarrow> string \<times> ImageStream" where
  "dockerImageRepository refString s stream =
     (let (registry, ok) = defaultRegistry s
      in if \<not> ok then (spec_DockerImageRepository (Spec stream), stream)
         else
           let stream1 = (if length (Namespace stream) = 0
                          then stream\<lparr>Namespace := NamespaceDefault\<rparr> else stream);
               ref = \<lparr>dir_Registry = registry, dir_Namespace = Namespace stream1,
                      dir_Name = Name stream1\<rparr>
           in (refString ref, stream1))"

section \<open>Create preparation\<close>

text \<open>
  \<^verbatim>\<open>Strategy.PrepareForCreate\<close>. The loop stores \<^verbatim>\<open>&stream.Generation\<close> in every
  spec tag; the field holds 1 from the assignment before the loop to the end of the
  function, so every tag reads as that value.
\<close>

definition stampGeneration :: "int64 \<Rightarrow> string \<Rightarrow> TagReference \<Rightarrow> TagReference" where
  "stampGeneration g tag ref = ref\<lparr>tr_Generation := Some g\<rparr>"

definition PrepareForCreate ::
  "(DockerImageReference \<Rightarrow> string) \<Rightarrow> Strategy \<Rightarrow> ImageStream \<Rightarrow> ImageStream" where
  "PrepareForCreate refString s obj =
     (let (repo, stream1) = dockerImageRepository refString s obj;
          stream2 = stream1\<lparr>Status := \<lparr>status_DockerImageRepository = repo,
                                         status_Tags = Map.empty\<rparr>\<rparr>;
          stream3 = stream2\<lparr>Generation := 1\<rparr>
      in stream3\<lparr>Spec := (Spec stream3)
           \<lparr>spec_Tags := rangeUpdate (stampGeneration (Generation stream3))
                           (spec_Tags (Spec stream3))\<rparr>\<rparr>)"

text \<open>\<^verbatim>\<open>InternalStrategy.PrepareForCreate\<close>.\<close>

definition Internal_PrepareForCreate ::
  "(DockerImageReference \<Rightarrow> string) \<Rightarrow> Strategy \<Rightarrow> ImageStream \<Rightarrow> ImageStream" where
  "Internal_PrepareForCreate refString s obj =
     (let (repo, stream1) = dockerImageRepository refString s obj;
          stream2 = stream1\<lparr>Status := (Status stream1)\<lparr>status_DockerImageRepository := repo\<rparr>\<rparr>;
          stream3 = stream2\<lparr>Generation := 1\<rparr>
      in stream3\<lparr>Spec := (Spec stream3)
           \<lparr>spec_Tags := rangeUpdate (stampGeneration (Generation stream3))
                           (spec_Tags (Spec stream3))\<rparr>\<rparr>)"

text \<open>\<^verbatim>\<open>Strategy.Decorate\<close>; it always returns a nil error.\<close>

definition Decorate ::
  "(DockerImageReference \<Rightarrow> string) \<Rightarrow> Strategy \<Rightarrow> ImageStream \<Rightarrow> ImageStream" where
  "Decorate refString s obj =
     (let (repo, ir) = dockerImageRepository refString s obj
      in ir\<lparr>Status := (Status ir)\<lparr>status_DockerImageRepository := repo\<rparr>\<rparr>)"

section \<open>Spec update preparation\<close>

text \<open>The spec tags of the old stream; empty when there is no old stream.\<close>

definition oldTagsOf :: "ImageStream option \<Rightarrow> (string \<rightharpoonup> TagReference)" where
  "oldTagsOf old = (case old of None \<Rightarrow> Map.empty | Some oldStream \<Rightarrow> spec_Tags (Spec oldStream))"

text \<open>
  \<^verbatim>\<open>updateSpecTagGenerationsForUpdate\<close>: a tag whose generation is set to 0 is left
  alone; any other tag that the old stream also has takes the old tag's generation.
\<close>

definition updateSpecTagGeneration :: "ImageStream \<Rightarrow> string \<Rightarrow> TagReference \<Rightarrow> TagReference" where
  "updateSpecTagGeneration oldStream tag ref =
     (if tr_Generation ref = Some 0 then ref
      else (case spec_Tags (Spec oldStream) tag of
              Some oldRef \<Rightarrow> ref\<lparr>tr_Generation := tr_Generation oldRef\<rparr>
            | None \<Rightarrow> ref))"

definition updateSpecTagGenerationsForUpdate :: "ImageStream \<Rightarrow> ImageStream \<Rightarrow> ImageStream" where
  "updateSpecTagGenerationsForUpdate stream oldStream =
     stream\<lparr>Spec := (Spec stream)
       \<lparr>spec_Tags := rangeUpdate (updateSpecTagGeneration oldStream) (spec_Tags (Spec stream))\<rparr>\<rparr>"

text \<open>
  \<^verbatim>\<open>ensureSpecTagGenerationsAreSet\<close>: the generation of a tag that is new or changed
  is dropped first; a tag that then has a generation other than 0 is skipped, and
  every other tag is stamped with the stream's generation.
\<close>

definition ensureSpecTagGeneration ::
  "ImageStream \<Rightarrow> (string \<rightharpoonup> TagReference) \<Rightarrow> string \<Rightarrow> TagReference \<Rightarrow> TagReference" where
  "ensureSpecTagGeneration stream oldTags tag ref =
     (let ref1 = (case oldTags tag of
                    None \<Rightarrow> ref\<lparr>tr_Generation := None\<rparr>
                  | Some oldRef \<Rightarrow>
                      if tagRefChanged oldRef ref (Namespace stream)
                      then ref\<lparr>tr_Generation := None\<rparr> else ref)
      in (case tr_Generation ref1 of
            Some g \<Rightarrow> if g \<noteq> 0 then ref
                      else ref1\<lparr>tr_Generation := Some (Generation stream)\<rparr>
          | None \<Rightarrow> ref1\<lparr>tr_Generation := Some (Generation stream)\<rparr>))"

definition ensureSpecTagGenerationsAreSet :: "ImageStream \<Rightarrow> ImageStream option \<Rightarrow> ImageStream" where
  "ensureSpecTagGenerationsAreSet stream oldStream =
     stream\<lparr>Spec := (Spec stream)
       \<lparr>spec_Tags := rangeUpdate (ensureSpecTagGeneration stream (oldTagsOf oldStream))
                       (spec_Tags (Spec stream))\<rparr>\<rparr>"

text \<open>\<^verbatim>\<open>kapi.Semantic.DeepEqual\<close> on two specs: equality of the values, pointers
  compared by what they point to.\<close>

definition DeepEqual :: "ImageStreamSpec \<Rightarrow> ImageStreamSpec \<Rightarrow> bool" where
  "DeepEqual a b = (a = b)"

text \<open>
  \<^verbatim>\<open>Strategy.prepareForUpdate\<close>. The new and the old stream are separate values, as
  the caller decodes them separately. The addition is Go's \<^verbatim>\<open>int64\<close> addition.
\<close>

definition prepareForUpdate ::
  "(DockerImageReference \<Rightarrow> string) \<Rightarrow> Strategy \<Rightarrow> ImageStream \<Rightarrow> ImageStream \<Rightarrow> bool
   \<Rightarrow> ImageStream" where
  "prepareForUpdate refString s obj oldStream resetStatus =
     (let stream1 = obj\<lparr>Generation := Generation oldStream\<rparr>;
          stream2 = (if resetStatus then stream1\<lparr>Status := Status oldStream\<rparr> else stream1);
          (repo, stream3) = dockerImageRepository refString s stream2;
          stream4 = stream3\<lparr>Status := (Status stream3)\<lparr>status_DockerImageRepository := repo\<rparr>\<rparr>;
          stream5 = updateSpecTagGenerationsForUpdate stream4 oldStream;
          stream6 = (if \<not> DeepEqual (Spec oldStream) (Spec stream5) \<or> Generation stream5 = 0
                     then stream5\<lparr>Generation := Generation oldStream + 1\<rparr> else stream5)
      in ensureSpecTagGenerationsAreSet stream6 (Some oldStream))"

definition PrepareForUpdate ::
  "(DockerImageReference \<Rightarrow> string) \<Rightarrow> Strategy \<Rightarrow> ImageStream \<Rightarrow> ImageStream \<Rightarrow> ImageStream" where
  "PrepareForUpdate refString s obj old = prepareForUpdate refString s obj old True"

definition Internal_PrepareForUpdate ::
  "(DockerImageReference \<Rightarrow> string) \<Rightarrow> Strategy \<Rightarrow> ImageStream \<Rightarrow> ImageStream \<Rightarrow> ImageStream" where
  "Internal_PrepareForUpdate refString s obj old = prepareForUpdate refString s obj old False"

section \<open>Status update preparation\<close>

text \<open>\<^verbatim>\<open>tagEventChanged\<close>; the generations are compared as signed integers.\<close>

definition tagEventChanged :: "TagEvent \<Rightarrow> TagEvent \<Rightarrow> bool" where
  "tagEventChanged old next =
     (ev_Image old \<noteq> ev_Image next
      \<or> ev_DockerImageReference old \<noteq> ev_DockerImageReference next
      \<or> sint (ev_Generation old) > sint (ev_Generation next))"

text \<open>Reading a Go map at a missing key gives the zero value, here an empty list of events.\<close>

definition tagEventListAt :: "(string \<rightharpoonup> TagEventList) \<Rightarrow> string \<Rightarrow> TagEventList" where
  "tagEventListAt m tag = (case m tag of None \<Rightarrow> \<lparr>Items = []\<rparr> | Some l \<Rightarrow> l)"

text \<open>
  The body of the loop in \<^verbatim>\<open>updateObservedGenerationForStatusUpdate\<close>, for the entry
  \<open>newer\<close> of \<^verbatim>\<open>stream.Status.Tags\<close> at \<open>tag\<close>. The three assignments to
  \<^verbatim>\<open>newer.Items[0].Generation\<close> are the three results that rewrite the head.
\<close>

definition updateObservedGeneration ::
  "ImageStream \<Rightarrow> ImageStream \<Rightarrow> string \<Rightarrow> TagEventList \<Rightarrow> TagEventList" where
  "updateObservedGeneration stream oldStream tag newer =
     (case Items newer of
        [] \<Rightarrow> newer
      | head # rest \<Rightarrow>
          if ev_Generation head \<noteq> 0 then newer
          else
            (case Items (tagEventListAt (status_Tags (Status oldStream)) tag) of
               [] \<Rightarrow> newer\<lparr>Items := head\<lparr>ev_Generation := Generation stream\<rparr> # rest\<rparr>
             | oldHead # oldRest \<Rightarrow>
                 if \<not> tagEventChanged oldHead head
                 then newer\<lparr>Items := head\<lparr>ev_Generation := Generation stream\<rparr> # rest\<rparr>
                 else
                   (case spec_Tags (Spec stream) tag of
                      None \<Rightarrow> newer\<lparr>Items := head\<lparr>ev_Generation := Generation stream\<rparr> # rest\<rparr>
                    | Some spec \<Rightarrow>
                        (case tr_Generation spec of
                           None \<Rightarrow>
                             newer\<lparr>Items := head\<lparr>ev_Generation := Generation stream\<rparr> # rest\<rparr>
                         | Some g \<Rightarrow> newer\<lparr>Items := head\<lparr>ev_Generation := g\<rparr> # rest\<rparr>))))"

definition updateObservedGenerationForStatusUpdate ::
  "ImageStream \<Rightarrow> ImageStream \<Rightarrow> ImageStream" where
  "updateObservedGenerationForStatusUpdate stream oldStream =
     stream\<lparr>Status := (Status stream)
       \<lparr>status_Tags := rangeUpdate (updateObservedGeneration stream oldStream)
                         (status_Tags (Status stream))\<rparr>\<rparr>"

text \<open>\<^verbatim>\<open>StatusStrategy.PrepareForUpdate\<close>.\<close>

definition Status_PrepareForUpdate :: "ImageStream \<Rightarrow> ImageStream \<Rightarrow> ImageStream" where
  "Status_PrepareForUpdate obj oldStream =
     (let stream1 = obj\<lparr>Spec := (Spec obj)\<lparr>spec_Tags := spec_Tags (Spec oldStream)\<rparr>\<rparr>;
          stream2 = stream1\<lparr>Spec := (Spec stream1)
                      \<lparr>spec_DockerImageRepository := spec_DockerImageRepository (Spec oldStream)\<rparr>\<rparr>
      in updateObservedGenerationForStatusUpdate stream2 oldStream)"

section \<open>Parsing a reference\<close>

text \<open>\<^verbatim>\<open>strings.Split\<close> for a separator of one byte, which is how
  \<^verbatim>\<open>parseFromReference\<close> calls it.\<close>

fun strings_Split :: "string \<Rightarrow> char \<Rightarrow> string list" where
  "strings_Split [] sep = [[]]"
| "strings_Split (c # cs) sep =
     (if c = sep then [] # strings_Split cs sep
      else (case strings_Split cs sep of
              [] \<Rightarrow> [[c]]
            | p # ps \<Rightarrow> (c # p) # ps))"

text \<open>The two errors of \<^verbatim>\<open>parseFromReference\<close>, with the values their messages quote.\<close>

datatype ParseError =
  InvalidFromKind string
  | InvalidFromName string string char string

definition splitFromName ::
  "ImageStream \<Rightarrow> ObjectReference \<Rightarrow> char \<Rightarrow> string \<Rightarrow> ParseError + (string \<times> string)" where
  "splitFromName stream from splitChar refType =
     (case strings_Split (ref_Name from) splitChar of
        [p] \<Rightarrow> Inr (Name stream, ref_Name from)
      | [p0, p1] \<Rightarrow> Inr (p0, p1)
      | _ \<Rightarrow> Inl (InvalidFromName (ref_Name from) refType splitChar refType))"

definition parseFromReference ::
  "ImageStream \<Rightarrow> ObjectReference \<Rightarrow> ParseError + (string \<times> string)" where
  "parseFromReference stream from =
     (if ref_Kind from = ''ImageStreamTag'' then splitFromName stream from (CHR '':'') ''tag''
      else if ref_Kind from = ''ImageStreamImage'' then splitFromName stream from (CHR ''@'') ''id''
      else Inl (InvalidFromKind (ref_Kind from)))"

section \<open>Access verification\<close>

text \<open>\<^verbatim>\<open>fielderrors\<close>: the validation errors built by the verifier.\<close>

datatype ValidationError =
  FieldInvalid string string string
  | FieldForbidden string string

text \<open>\<^verbatim>\<open>user.Info\<close>, through its methods \<^verbatim>\<open>GetName\<close> and \<^verbatim>\<open>GetGroups\<close>.\<close>

record UserInfo =
  user_Name :: string
  user_Groups :: "string list"

text \<open>\<^verbatim>\<open>authorizationapi.SubjectAccessReview\<close>, with the action's fields inlined.\<close>

record SubjectAccessReview =
  sar_Verb :: string
  sar_Resource :: string
  sar_ResourceName :: string
  sar_User :: string
  sar_Groups :: "string set"

text \<open>
  The review client is outside this file. It is a function from the namespace of the
  context and the review to the pair \<^verbatim>\<open>(resp, err)\<close>: the response is \<open>None\<close> for
  nil and \<open>Some allowed\<close> otherwise, and the flag says whether \<^verbatim>\<open>err\<close> is not nil.
\<close>

type_synonym ReviewClient = "string \<Rightarrow> SubjectAccessReview \<Rightarrow> bool option \<times> bool"

text \<open>
  One iteration of the loop in \<^verbatim>\<open>TagVerifier.Verify\<close>. The state is the list of
  errors and the list of reviews sent to the client so far, each with the
  namespace of its context.
\<close>

definition Verify_tag ::
  "ReviewClient \<Rightarrow> (string \<rightharpoonup> TagReference) \<Rightarrow> ImageStream \<Rightarrow> UserInfo
   \<Rightarrow> ValidationError list \<times> (string \<times> SubjectAccessReview) list
   \<Rightarrow> string \<times> TagReference
   \<Rightarrow> ValidationError list \<times> (string \<times> SubjectAccessReview) list" where
  "Verify_tag client oldTags stream user st entry =
     (let (errors, sent) = st; (tag, tagRef) = entry
      in (case tr_From tagRef of
            None \<Rightarrow> st
          | Some from \<Rightarrow>
              if length (ref_Namespace from) = 0 then st
              else if Namespace stream = ref_Namespace from then st
              else if (case oldTags tag of
                         Some oldRef \<Rightarrow> \<not> tagRefChanged oldRef tagRef (Namespace stream)
                       | None \<Rightarrow> False) then st
              else
                (case parseFromReference stream from of
                   Inl err \<Rightarrow>
                     (errors @ [FieldInvalid (''spec.tags['' @ tag @ ''].from.name'')
                                  (ref_Name from)
                                  ''must be of the form <tag>, <repo>:<tag>, <id>, or <repo>@<id>''],
                      sent)
                 | Inr (streamName, tagOrID) \<Rightarrow>
                     let subjectAccessReview =
                           \<lparr>sar_Verb = ''get'', sar_Resource = ''imagestreams'',
                            sar_ResourceName = streamName, sar_User = user_Name user,
                            sar_Groups = set (user_Groups user)\<rparr>;
                         (resp, err) = client (ref_Namespace from) subjectAccessReview;
                         sent1 = sent @ [(ref_Namespace from, subjectAccessReview)]
                     in if err \<or> resp = None \<or> resp = Some False
                        then (errors @ [FieldForbidden (''spec.tags['' @ tag @ ''].from'')
                                          (ref_Namespace from @ ''/'' @ streamName)],
                              sent1)
                        else (errors, sent1))))"

text \<open>
  \<^verbatim>\<open>TagVerifier.Verify\<close>. \<open>order\<close> lists the keys of \<^verbatim>\<open>stream.Spec.Tags\<close> in the
  order in which the range statement visits them. The result is the returned list of
  errors, and with it the reviews sent.
\<close>

definition specTagEntries :: "ImageStream \<Rightarrow> string list \<Rightarrow> (string \<times> TagReference) list" where
  "specTagEntries stream order =
     List.map_filter (\<lambda>tag. map_option (Pair tag) (spec_Tags (Spec stream) tag)) order"

definition Verify ::
  "ReviewClient \<Rightarrow> ImageStream option \<Rightarrow> ImageStream \<Rightarrow> UserInfo \<Rightarrow> string list
   \<Rightarrow> ValidationError list \<times> (string \<times> SubjectAccessReview) list" where
  "Verify client old stream user order =
     foldl (Verify_tag client (oldTagsOf old) stream user) ([], []) (specTagEntries stream order)"

section \<open>Resolving a tag reference to an event\<close>

text \<open>
  The errors of \<^verbatim>\<open>tagReferenceToTagEvent\<close>: the run-time panic of reading
  \<^verbatim>\<open>tagRef.From.Kind\<close> through a nil pointer, an error passed on from
  \<^verbatim>\<open>api.ResolveImageID\<close>, and the error for an unknown kind.
\<close>

datatype ResolveError =
  NilPointerDereference
  | ResolveImageIDError string
  | InvalidKind string

text \<open>
  \<^verbatim>\<open>tagReferenceToTagEvent\<close>. The clock \<^verbatim>\<open>unversioned.Now()\<close> and the two lookups
  \<^verbatim>\<open>api.ResolveImageID\<close> (an event or nil, and an error or nil) and
  \<^verbatim>\<open>api.LatestTaggedImage\<close> (an event or nil) of the API package are parameters. The
  result is the error, or else the event or nil.
\<close>

definition tagReferenceToTagEvent ::
  "Time \<Rightarrow> (ImageStream \<Rightarrow> string \<Rightarrow> TagEvent option \<times> string option)
   \<Rightarrow> (ImageStream \<Rightarrow> string \<Rightarrow> TagEvent option)
   \<Rightarrow> ImageStream \<Rightarrow> TagReference \<Rightarrow> string \<Rightarrow> ResolveError + TagEvent option" where
  "tagReferenceToTagEvent now ResolveImageID LatestTaggedImage stream tagRef tagOrID =
     (case tr_From tagRef of
        None \<Rightarrow> Inl NilPointerDereference
      | Some from \<Rightarrow>
          let (event, err) =
                (if ref_Kind from = ''DockerImage''
                 then (Some \<lparr>ev_Created = now, ev_DockerImageReference = ref_Name from,
                              ev_Image = [], ev_Generation = 0\<rparr>, None)
                 else if ref_Kind from = ''ImageStreamImage''
                 then (case ResolveImageID stream tagOrID of
                         (e, r) \<Rightarrow> (e, map_option ResolveImageIDError r))
                 else if ref_Kind from = ''ImageStreamTag''
                 then (LatestTaggedImage stream tagOrID, None)
                 else (None, Some (InvalidKind (ref_Kind from))))
          in (case err of
                Some e \<Rightarrow> Inl e
              | None \<Rightarrow>
                  (case event of
                     None \<Rightarrow> Inr None
                   | Some ev \<Rightarrow>
                       (case tr_Generation tagRef of
                          None \<Rightarrow> Inr (Some ev)
                        | Some g \<Rightarrow> Inr (Some (ev\<lparr>ev_Generation := g\<rparr>))))))"

section \<open>The time stamps of a new stream's events\<close>

text \<open>
  The inner loop at the end of \<^verbatim>\<open>tagsChanged\<close>:
  \<^verbatim>\<open>for _, event := range list.Items { event.Created = stream.CreationTimestamp }\<close>.
  In Go the range variable \<^verbatim>\<open>event\<close> is a copy of the element. The state of the loop
  is the list, which no statement of the body assigns, and the variable \<^verbatim>\<open>event\<close>;
  the first argument is the part of \<^verbatim>\<open>list.Items\<close> still to visit.
\<close>

fun rangeItemsSetCreated ::
  "TagEvent list \<Rightarrow> Time \<Rightarrow> TagEventList \<times> TagEvent option \<Rightarrow> TagEventList \<times> TagEvent option" where
  "rangeItemsSetCreated [] created (list, event) = (list, event)"
| "rangeItemsSetCreated (item # items) created (list, event) =
     rangeItemsSetCreated items created (list, Some (item\<lparr>ev_Created := created\<rparr>))"

text \<open>The body of the outer loop: run the inner loop, then store \<^verbatim>\<open>list\<close> under the tag.\<close>

definition setCreatedBody :: "Time \<Rightarrow> string \<Rightarrow> TagEventList \<Rightarrow> TagEventList" where
  "setCreatedBody created tag list = fst (rangeItemsSetCreated (Items list) created (list, None))"

text \<open>
  The last block of \<^verbatim>\<open>tagsChanged\<close>, under the comment "use a consistent timestamp
  on creation"; \<open>old\<close> is \<open>None\<close> for the nil pointer of a create.
\<close>

definition tagsChanged_creationTimestamp :: "ImageStream option \<Rightarrow> ImageStream \<Rightarrow> ImageStream" where
  "tagsChanged_creationTimestamp old stream =
     (if old = None \<and> \<not> IsZero (CreationTimestamp stream)
      then stream\<lparr>Status := (Status stream)
             \<lparr>status_Tags := rangeUpdate (setCreatedBody (CreationTimestamp stream))
                               (status_Tags (Status stream))\<rparr>\<rparr>
      else stream)"

section \<open>Statement of the verifier's behaviour\<close>

text \<open>
  The review that one spec tag calls for, if any, with the namespace of its context:
  the tag has a \<^verbatim>\<open>from\<close> whose namespace is set and differs from the stream's, the tag
  is new or changed against the old tags, and its reference parses to a stream name.
\<close>

definition tagReview ::
  "(string \<rightharpoonup> TagReference) \<Rightarrow> ImageStream \<Rightarrow> UserInfo \<Rightarrow> string \<times> TagReference
   \<Rightarrow> (string \<times> SubjectAccessReview) option" where
  "tagReview oldTags stream user entry =
     (case tr_From (snd entry) of
        None \<Rightarrow> None
      | Some from \<Rightarrow>
          if ref_Namespace from \<noteq> [] \<and> ref_Namespace from \<noteq> Namespace stream
             \<and> (case oldTags (fst entry) of
                   None \<Rightarrow> True
                 | Some oldRef \<Rightarrow> tagRefChanged oldRef (snd entry) (Namespace stream))
          then (case parseFromReference stream from of
                  Inl err \<Rightarrow> None
                | Inr target \<Rightarrow>
                    Some (ref_Namespace from,
                          \<lparr>sar_Verb = ''get'', sar_Resource = ''imagestreams'',
                           sar_ResourceName = fst target, sar_User = user_Name user,
                           sar_Groups = set (user_Groups user)\<rparr>))
          else None)"

text \<open>A reply of the client that counts as a denial: an error, no response, or a
  response that does not allow.\<close>

definition denied :: "bool option \<times> bool \<Rightarrow> bool" where
  "denied reply = (snd reply \<or> fst reply = None \<or> fst reply = Some False)"

text \<open>The errors that one spec tag adds to the list.\<close>

definition tagErrors ::
  "ReviewClient \<Rightarrow> (string \<rightharpoonup> TagReference) \<Rightarrow> ImageStream \<Rightarrow> UserInfo
   \<Rightarrow> string \<times> TagReference \<Rightarrow> ValidationError list" where
  "tagErrors client oldTags stream user entry =
     (case tr_From (snd entry) of
        None \<Rightarrow> []
      | Some from \<Rightarrow>
          if ref_Namespace from \<noteq> [] \<and> ref_Namespace from \<noteq> Namespace stream
             \<and> (case oldTags (fst entry) of
                   None \<Rightarrow> True
                 | Some oldRef \<Rightarrow> tagRefChanged oldRef (snd entry) (Namespace stream))
          then (case tagReview oldTags stream user entry of
                  None \<Rightarrow>
                    [FieldInvalid (''spec.tags['' @ fst entry @ ''].from.name'') (ref_Name from)
                       ''must be of the form <tag>, <repo>:<tag>, <id>, or <repo>@<id>'']
                | Some (ns, review) \<Rightarrow>
                    if denied (client ns review)
                    then [FieldForbidden (''spec.tags['' @ fst entry @ ''].from'')
                            (ns @ ''/'' @ sar_ResourceName review)]
                    else [])
          else [])"

section \<open>Sample values\<close>

text \<open>A rendering of a repository reference as \<^verbatim>\<open>registry/namespace/name\<close>.\<close>

definition sampleRefString :: "DockerImageReference \<Rightarrow> string" where
  "sampleRefString r = dir_Registry r @ ''/'' @ dir_Namespace r @ ''/'' @ dir_Name r"

definition sampleStrategy :: Strategy where
  "sampleStrategy = \<lparr>defaultRegistry = (''registry.example:5000'', True)\<rparr>"

definition sampleTag :: "string \<Rightarrow> int64 option \<Rightarrow> TagReference" where
  "sampleTag kind g =
     \<lparr>tr_From = Some \<lparr>ref_Kind = kind, ref_Namespace = ''other'', ref_Name = ''base:v1''\<rparr>,
      tr_Reference = False, tr_Generation = g\<rparr>"

definition sampleEvent :: "int64 \<Rightarrow> TagEvent" where
  "sampleEvent g =
     \<lparr>ev_Created = 7, ev_DockerImageReference = ''registry.example/ns/img@sha256:abc'',
      ev_Image = ''sha256:abc'', ev_Generation = g\<rparr>"

text \<open>A stream \<^verbatim>\<open>app\<close> without namespace, with one spec tag \<^verbatim>\<open>latest\<close> and one event
  in the history of that tag.\<close>

definition sampleStream :: "int64 \<Rightarrow> TagReference \<Rightarrow> TagEvent \<Rightarrow> ImageStream" where
  "sampleStream g tagRef event =
     \<lparr>Name = ''app'', Namespace = [], Generation = g, CreationTimestamp = 100,
      Spec = \<lparr>spec_DockerImageRepository = [], spec_Tags = [''latest'' \<mapsto> tagRef]\<rparr>,
      Status = \<lparr>status_DockerImageRepository = ''stale'',
                status_Tags = [''latest'' \<mapsto> \<lparr>Items = [event]\<rparr>]\<rparr>\<rparr>"

text \<open>The same stream with no history for any tag.\<close>

definition sampleStreamNoHistory :: "int64 \<Rightarrow> TagReference \<Rightarrow> ImageStream" where
  "sampleStreamNoHistory g tagRef =
     \<lparr>Name = ''app'', Namespace = [], Generation = g, CreationTimestamp = 100,
      Spec = \<lparr>spec_DockerImageRepository = [], spec_Tags = [''latest'' \<mapsto> tagRef]\<rparr>,
      Status = \<lparr>status_DockerImageRepository = ''stale'', status_Tags = Map.empty\<rparr>\<rparr>"

definition sampleUser :: UserInfo where
  "sampleUser = \<lparr>user_Name = ''alice'', user_Groups = [''dev'']\<rparr>"

text \<open>A review client that denies every request.\<close>

definition denyAll :: ReviewClient where
  "denyAll ns review = (Some False, False)"

section \<open>Properties of the change detector\<close>

lemma tagRefGenerationChanged_iff:
  "tagRefGenerationChanged old next = bothGenerationsSetNewZero old next"
  by (auto simp add: tagRefGenerationChanged_def bothGenerationsSetNewZero_def
      split: option.splits)

lemma tagRefChanged_nil_from:
  "tr_From next = None \<Longrightarrow> \<not> tagRefChanged old next ns"
  by (simp add: tagRefChanged_def)

lemma tagRefChanged_unset_from:
  "tr_From next = Some f \<Longrightarrow> ref_Kind f = [] \<Longrightarrow> ref_Name f = []
   \<Longrightarrow> \<not> tagRefChanged old next ns"
  by (simp add: tagRefChanged_def)

text \<open>
  Claim C1, as the code has it. With \<^verbatim>\<open>next.From\<close> nil, or with its kind and name
  both empty, the detector answers false. Otherwise it answers true exactly when the
  namespaces differ after defaulting, or the names differ, or both generations are
  set, unequal, and the new one is zero. A difference of the kinds alone is not
  part of the answer.
\<close>

theorem tagRefChanged_characterisation:
  "tagRefChanged old next ns =
     (case tr_From next of
        None \<Rightarrow> False
      | Some nf \<Rightarrow>
          \<not> (ref_Kind nf = [] \<and> ref_Name nf = []) \<and>
          (normalizedNamespace (fromOrZero old) ns \<noteq> normalizedNamespace nf ns
           \<or> ref_Name (fromOrZero old) \<noteq> ref_Name nf
           \<or> bothGenerationsSetNewZero old next))"
  by (auto simp add: tagRefChanged_def normalizedNamespace_def fromOrZero_def Let_def
      tagRefGenerationChanged_iff emptyObjectReference_def split: option.splits)

theorem tagRefChanged_characterisation_witness:
  "tagRefChanged
     \<lparr>tr_From = Some \<lparr>ref_Kind = ''ImageStreamTag'', ref_Namespace = [], ref_Name = ''a:v1''\<rparr>,
      tr_Reference = False, tr_Generation = Some 3\<rparr>
     \<lparr>tr_From = Some \<lparr>ref_Kind = ''ImageStreamTag'', ref_Namespace = ''ns'', ref_Name = ''a:v1''\<rparr>,
      tr_Reference = False, tr_Generation = Some 0\<rparr>
     ''ns''
   \<and> \<not> tagRefChanged
     \<lparr>tr_From = Some \<lparr>ref_Kind = ''ImageStreamTag'', ref_Namespace = [], ref_Name = ''a:v1''\<rparr>,
      tr_Reference = False, tr_Generation = Some 3\<rparr>
     \<lparr>tr_From = Some \<lparr>ref_Kind = ''ImageStreamTag'', ref_Namespace = ''ns'', ref_Name = ''a:v1''\<rparr>,
      tr_Reference = False, tr_Generation = Some 4\<rparr>
     ''ns''"
  using tagRefChanged_characterisation
    [of "\<lparr>tr_From = Some \<lparr>ref_Kind = ''ImageStreamTag'', ref_Namespace = [], ref_Name = ''a:v1''\<rparr>,
          tr_Reference = False, tr_Generation = Some 3\<rparr>"
        "\<lparr>tr_From = Some \<lparr>ref_Kind = ''ImageStreamTag'', ref_Namespace = ''ns'', ref_Name = ''a:v1''\<rparr>,
          tr_Reference = False, tr_Generation = Some 0\<rparr>" "''ns''"]
    tagRefChanged_characterisation
    [of "\<lparr>tr_From = Some \<lparr>ref_Kind = ''ImageStreamTag'', ref_Namespace = [], ref_Name = ''a:v1''\<rparr>,
          tr_Reference = False, tr_Generation = Some 3\<rparr>"
        "\<lparr>tr_From = Some \<lparr>ref_Kind = ''ImageStreamTag'', ref_Namespace = ''ns'', ref_Name = ''a:v1''\<rparr>,
          tr_Reference = False, tr_Generation = Some 4\<rparr>" "''ns''"]
  by (simp add: normalizedNamespace_def fromOrZero_def bothGenerationsSetNewZero_def)

text \<open>
  The claim as written also lists a difference of the kinds among the reasons for
  an answer of true. Two references that differ in nothing but the kind are
  reported as unchanged.
\<close>

theorem tagRefChanged_kind_counterexample:
  "ref_Kind \<lparr>ref_Kind = ''ImageStreamTag'', ref_Namespace = ''ns'', ref_Name = ''v1''\<rparr>
     \<noteq> ref_Kind \<lparr>ref_Kind = ''ImageStreamImage'', ref_Namespace = ''ns'', ref_Name = ''v1''\<rparr>
   \<and> \<not> tagRefChanged
     \<lparr>tr_From = Some \<lparr>ref_Kind = ''ImageStreamTag'', ref_Namespace = ''ns'', ref_Name = ''v1''\<rparr>,
      tr_Reference = False, tr_Generation = None\<rparr>
     \<lparr>tr_From = Some \<lparr>ref_Kind = ''ImageStreamImage'', ref_Namespace = ''ns'', ref_Name = ''v1''\<rparr>,
      tr_Reference = False, tr_Generation = None\<rparr>
     ''ns''"
  by (simp add: tagRefChanged_def tagRefGenerationChanged_def)

section \<open>Properties of the preparation steps\<close>

lemma rangeLoop_general:
  "distinct ks \<Longrightarrow>
   rangeLoop body ks m = (\<lambda>k. if k \<in> set ks then map_option (body k) (m k) else m k)"
proof (induction ks arbitrary: m)
  case Nil
  then show ?case by simp
next
  case (Cons k ks)
  then show ?case
    by (cases "m k") (auto simp: fun_eq_iff)
qed

lemma rangeLoop_rangeUpdate:
  assumes "distinct ks" and "set ks = dom m"
  shows "rangeLoop body ks m = rangeUpdate body m"
proof -
  have "rangeLoop body ks m k = rangeUpdate body m k" for k
    using assms by (cases "m k") (auto simp: rangeLoop_general rangeUpdate_def)
  then show ?thesis by (simp add: fun_eq_iff)
qed

lemma dockerImageRepository_snd:
  "snd (dockerImageRepository rs s x) =
     (if snd (defaultRegistry s) \<and> Namespace x = [] then x\<lparr>Namespace := NamespaceDefault\<rparr> else x)"
  by (simp add: dockerImageRepository_def Let_def split: prod.splits)

lemma dockerImageRepository_frame:
  "Spec (snd (dockerImageRepository rs s x)) = Spec x"
  "Status (snd (dockerImageRepository rs s x)) = Status x"
  "Generation (snd (dockerImageRepository rs s x)) = Generation x"
  "Name (snd (dockerImageRepository rs s x)) = Name x"
  by (simp_all add: dockerImageRepository_snd)

lemma PrepareForCreate_unfold:
  "PrepareForCreate rs s obj =
     (snd (dockerImageRepository rs s obj))
       \<lparr>Generation := 1,
        Spec := (Spec obj)\<lparr>spec_Tags := rangeUpdate (stampGeneration 1) (spec_Tags (Spec obj))\<rparr>,
        Status := \<lparr>status_DockerImageRepository = fst (dockerImageRepository rs s obj),
                   status_Tags = Map.empty\<rparr>\<rparr>"
  by (simp add: PrepareForCreate_def Let_def case_prod_beta dockerImageRepository_frame)

lemma Internal_PrepareForCreate_unfold:
  "Internal_PrepareForCreate rs s obj =
     (snd (dockerImageRepository rs s obj))
       \<lparr>Generation := 1,
        Spec := (Spec obj)\<lparr>spec_Tags := rangeUpdate (stampGeneration 1) (spec_Tags (Spec obj))\<rparr>,
        Status := (Status obj)\<lparr>status_DockerImageRepository := fst (dockerImageRepository rs s obj)\<rparr>\<rparr>"
  by (simp add: Internal_PrepareForCreate_def Let_def case_prod_beta dockerImageRepository_frame)

text \<open>
  Claim C5. After create preparation, on the user-facing and on the internal strategy,
  the generation of the stream is 1, and every spec tag that carries a \<^verbatim>\<open>from\<close> has the
  generation 1, whatever generations the caller supplied. The last part says more:
  every spec tag of the input is kept, with its generation replaced by 1.
\<close>

theorem create_generation_is_one:
  "Generation (PrepareForCreate rs s obj) = 1
   \<and> Generation (Internal_PrepareForCreate rs s obj) = 1
   \<and> (\<forall>tag ref. spec_Tags (Spec (PrepareForCreate rs s obj)) tag = Some ref \<and> tr_From ref \<noteq> None
         \<longrightarrow> tr_Generation ref = Some 1)
   \<and> (\<forall>tag ref. spec_Tags (Spec (Internal_PrepareForCreate rs s obj)) tag = Some ref
           \<and> tr_From ref \<noteq> None
         \<longrightarrow> tr_Generation ref = Some 1)
   \<and> (\<forall>tag ref. spec_Tags (Spec obj) tag = Some ref
         \<longrightarrow> spec_Tags (Spec (PrepareForCreate rs s obj)) tag = Some (ref\<lparr>tr_Generation := Some 1\<rparr>)
           \<and> spec_Tags (Spec (Internal_PrepareForCreate rs s obj)) tag
               = Some (ref\<lparr>tr_Generation := Some 1\<rparr>))"
  by (auto simp: PrepareForCreate_unfold Internal_PrepareForCreate_unfold rangeUpdate_def
      stampGeneration_def)

text \<open>
  Claim C8. User-facing create preparation replaces the status by the derived
  repository string and an empty map of tag histories. Internal create preparation
  keeps the tag histories of the caller and recomputes only the repository string.
\<close>

theorem create_status:
  "Status (PrepareForCreate rs s obj) =
     \<lparr>status_DockerImageRepository = fst (dockerImageRepository rs s obj),
      status_Tags = Map.empty\<rparr>
   \<and> status_Tags (Status (Internal_PrepareForCreate rs s obj)) = status_Tags (Status obj)
   \<and> status_DockerImageRepository (Status (Internal_PrepareForCreate rs s obj))
       = fst (dockerImageRepository rs s obj)"
  by (simp add: PrepareForCreate_unfold Internal_PrepareForCreate_unfold)


lemma updateSpecTagGenerationsForUpdate_frame:
  "Namespace (updateSpecTagGenerationsForUpdate st old) = Namespace st"
  "Generation (updateSpecTagGenerationsForUpdate st old) = Generation st"
  "Status (updateSpecTagGenerationsForUpdate st old) = Status st"
  by (simp_all add: updateSpecTagGenerationsForUpdate_def)

lemma ensureSpecTagGenerationsAreSet_frame:
  "Namespace (ensureSpecTagGenerationsAreSet st old) = Namespace st"
  "Generation (ensureSpecTagGenerationsAreSet st old) = Generation st"
  "Status (ensureSpecTagGenerationsAreSet st old) = Status st"
  by (simp_all add: ensureSpecTagGenerationsAreSet_def)

lemma updateSpecTagGenerationsForUpdate_Spec:
  "Spec st = Spec st' \<Longrightarrow>
   Spec (updateSpecTagGenerationsForUpdate st old) = Spec (updateSpecTagGenerationsForUpdate st' old)"
  by (simp add: updateSpecTagGenerationsForUpdate_def)

lemma prepareForUpdate_Namespace:
  "Namespace (prepareForUpdate rs s obj old reset) =
     (if snd (defaultRegistry s) \<and> Namespace obj = [] then NamespaceDefault else Namespace obj)"
  by (auto simp add: prepareForUpdate_def Let_def case_prod_beta dockerImageRepository_snd
      updateSpecTagGenerationsForUpdate_frame ensureSpecTagGenerationsAreSet_frame)

text \<open>
  Claim C10. With a default registry configured and an empty namespace, computing the
  repository string assigns the default namespace to the stream; the assignment
  is visible after create preparation (both strategies), spec update preparation and
  decoration.
\<close>

theorem dockerImageRepository_defaults_namespace:
  assumes "snd (defaultRegistry s)" and "Namespace obj = []"
  shows "Namespace (snd (dockerImageRepository rs s obj)) = NamespaceDefault
   \<and> Namespace (PrepareForCreate rs s obj) = NamespaceDefault
   \<and> Namespace (Internal_PrepareForCreate rs s obj) = NamespaceDefault
   \<and> Namespace (prepareForUpdate rs s obj old resetStatus) = NamespaceDefault
   \<and> Namespace (Decorate rs s obj) = NamespaceDefault"
  using assms
  by (simp add: dockerImageRepository_snd PrepareForCreate_unfold Internal_PrepareForCreate_unfold
      prepareForUpdate_Namespace Decorate_def case_prod_beta Let_def)

lemma updateObservedGenerationForStatusUpdate_Spec:
  "Spec (updateObservedGenerationForStatusUpdate st old) = Spec st"
  by (simp add: updateObservedGenerationForStatusUpdate_def)

text \<open>
  Claim C6. After status update preparation the spec of the stream is the spec of the
  old stream: the incoming spec is discarded.
\<close>

theorem status_update_keeps_old_spec:
  "Spec (Status_PrepareForUpdate obj old) = Spec old"
  by (simp add: Status_PrepareForUpdate_def Let_def updateObservedGenerationForStatusUpdate_Spec)

lemma rangeItemsSetCreated_list:
  "fst (rangeItemsSetCreated items created (list, event)) = list"
  by (induction items arbitrary: event) simp_all

lemma setCreatedBody_id: "setCreatedBody created tag list = list"
  by (simp add: setCreatedBody_def rangeItemsSetCreated_list)

lemma rangeUpdate_id:
  assumes "\<And>k v. body k v = v"
  shows "rangeUpdate body m = m"
proof (rule ext)
  fix k
  show "rangeUpdate body m k = m k"
    using assms by (cases "m k") (simp_all add: rangeUpdate_def)
qed

text \<open>
  Claim C9. On create with a creation time stamp that is not zero, the closing loop of
  \<^verbatim>\<open>tagsChanged\<close> assigns the time stamp to the copy held by the range variable only;
  the stream, and with it every stored event, is what it was before the loop.
\<close>

theorem creation_timestamp_loop_changes_nothing:
  assumes "old = None" and "\<not> IsZero (CreationTimestamp stream)"
  shows "tagsChanged_creationTimestamp old stream = stream"
  using assms by (simp add: tagsChanged_creationTimestamp_def rangeUpdate_id setCreatedBody_id)

text \<open>
  Claim C7. A tag whose \<^verbatim>\<open>from\<close> has the kind \<^verbatim>\<open>DockerImage\<close> always resolves to an
  event whose reference is the name of the \<^verbatim>\<open>from\<close>, verbatim, created now. Whenever
  a resolution of any kind yields an event and the tag carries a generation, the
  event has that generation.
\<close>

theorem tagReferenceToTagEvent_direct_image_and_generation:
  "(tr_From tagRef = Some from \<and> ref_Kind from = ''DockerImage'' \<longrightarrow>
      (\<exists>ev. tagReferenceToTagEvent now rid lti stream tagRef tagOrID = Inr (Some ev)
            \<and> ev_DockerImageReference ev = ref_Name from \<and> ev_Created ev = now))
   \<and> (tagReferenceToTagEvent now rid lti stream tagRef tagOrID = Inr (Some ev')
        \<and> tr_Generation tagRef = Some g \<longrightarrow> ev_Generation ev' = g)"
  by (auto simp: tagReferenceToTagEvent_def Let_def split: option.splits if_splits prod.splits)


lemma sint_succ_int64:
  fixes x :: int64
  assumes "sint x < 2 ^ 63 - 1"
  shows "sint (x + 1) = sint x + 1"
proof -
  have lo: "- (2 ^ 63) \<le> sint x" using sint_ge [of x] by simp
  have "sint (x + 1) = signed_take_bit 63 (sint x + 1)"
    by (simp add: sint_word_ariths)
  also have "\<dots> = sint x + 1"
    using lo assms by (intro signed_take_bit_int_eq_self) simp_all
  finally show ?thesis .
qed

lemma prepareForUpdate_Generation:
  "Generation (prepareForUpdate rs s obj old reset) =
     (if \<not> DeepEqual (Spec old) (Spec (updateSpecTagGenerationsForUpdate obj old))
         \<or> Generation old = 0
      then Generation old + 1 else Generation old)"
  by (simp add: prepareForUpdate_def Let_def case_prod_beta
      ensureSpecTagGenerationsAreSet_frame updateSpecTagGenerationsForUpdate_def
      dockerImageRepository_frame)

text \<open>
  Claim C2, as the code has it. Spec update preparation yields the old generation plus 1
  (in \<^verbatim>\<open>int64\<close> arithmetic) when the spec after generation pinning is not deep-equal to
  the old spec or the old generation is 0, and the old generation otherwise. Unless the
  old generation is the largest \<^verbatim>\<open>int64\<close>, the result is not below the old generation.
\<close>

theorem prepareForUpdate_generation_step:
  "Generation (prepareForUpdate rs s obj old resetStatus) =
     (if \<not> DeepEqual (Spec old) (Spec (updateSpecTagGenerationsForUpdate obj old))
         \<or> Generation old = 0
      then Generation old + 1 else Generation old)
   \<and> (sint (Generation old) < 2 ^ 63 - 1 \<longrightarrow>
        sint (Generation old) \<le> sint (Generation (prepareForUpdate rs s obj old resetStatus)))"
  by (simp add: prepareForUpdate_Generation sint_succ_int64)



lemma updateObservedGeneration_unset_head:
  assumes "Items newer = head # rest" and "ev_Generation head = 0"
  shows "updateObservedGeneration stream old tag newer =
     newer\<lparr>Items := head\<lparr>ev_Generation :=
       (case Items (tagEventListAt (status_Tags (Status old)) tag) of
          [] \<Rightarrow> Generation stream
        | oldHead # oldRest \<Rightarrow>
            if ev_Image oldHead = ev_Image head
               \<and> ev_DockerImageReference oldHead = ev_DockerImageReference head
               \<and> sint (ev_Generation oldHead) \<le> 0
            then Generation stream
            else (case spec_Tags (Spec stream) tag of
                    None \<Rightarrow> Generation stream
                  | Some spec \<Rightarrow> (case tr_Generation spec of
                                    None \<Rightarrow> Generation stream
                                  | Some g \<Rightarrow> g)))\<rparr> # rest\<rparr>"
  using assms
  by (auto simp: updateObservedGeneration_def tagEventChanged_def
      split: list.splits option.splits)

lemma updateObservedGeneration_set_head:
  "Items newer = [] \<or> ev_Generation (hd (Items newer)) \<noteq> 0
   \<Longrightarrow> updateObservedGeneration stream old tag newer = newer"
  by (auto simp: updateObservedGeneration_def split: list.splits)

lemma spec_replaced:
  "(Spec obj)\<lparr>spec_Tags := spec_Tags (Spec old),
       spec_DockerImageRepository := spec_DockerImageRepository (Spec old)\<rparr> = Spec old"
  by (cases "Spec old"; cases "Spec obj") simp

lemma Status_PrepareForUpdate_tag:
  "status_Tags (Status (Status_PrepareForUpdate obj old)) tag =
     map_option (updateObservedGeneration (obj\<lparr>Spec := Spec old\<rparr>) old tag)
       (status_Tags (Status obj) tag)"
  by (simp add: Status_PrepareForUpdate_def Let_def
      updateObservedGenerationForStatusUpdate_def rangeUpdate_def spec_replaced)

text \<open>
  Claim C3, as the code has it. In status update preparation, a tag whose newest event
  has generation 0 gets that event stamped, and nothing else in its history changes.
  The stamp is the generation of the stream when the old stream has no event for the
  tag, or when the old newest event has the same image and reference and a generation
  that is not above 0. Otherwise it is the generation of the stream when the
  corresponding spec tag has no generation (or there is no such spec tag), and the
  generation of the spec tag when it has one; the spec consulted is the old one, which
  the preparation has copied over. In particular, a newest event of generation 0 whose
  image and reference equal those of an old newest event with a generation not above
  0 comes out with the generation of the stream.
\<close>

theorem status_update_stamps_unset_head:
  assumes "status_Tags (Status obj) tag = Some newer"
    and "Items newer = head # rest" and "ev_Generation head = 0"
  shows "status_Tags (Status (Status_PrepareForUpdate obj old)) tag =
     Some (newer\<lparr>Items := head\<lparr>ev_Generation :=
       (case Items (tagEventListAt (status_Tags (Status old)) tag) of
          [] \<Rightarrow> Generation obj
        | oldHead # oldRest \<Rightarrow>
            if ev_Image oldHead = ev_Image head
               \<and> ev_DockerImageReference oldHead = ev_DockerImageReference head
               \<and> sint (ev_Generation oldHead) \<le> 0
            then Generation obj
            else (case spec_Tags (Spec old) tag of
                    None \<Rightarrow> Generation obj
                  | Some spec \<Rightarrow> (case tr_Generation spec of
                                    None \<Rightarrow> Generation obj
                                  | Some g \<Rightarrow> g)))\<rparr> # rest\<rparr>)
   \<and> (\<forall>oldHead oldRest.
         Items (tagEventListAt (status_Tags (Status old)) tag) = oldHead # oldRest
         \<and> ev_Image oldHead = ev_Image head
         \<and> ev_DockerImageReference oldHead = ev_DockerImageReference head
         \<and> sint (ev_Generation oldHead) \<le> 0
         \<longrightarrow> status_Tags (Status (Status_PrepareForUpdate obj old)) tag =
               Some (newer\<lparr>Items := head\<lparr>ev_Generation := Generation obj\<rparr> # rest\<rparr>))"
  using assms
  by (simp add: Status_PrepareForUpdate_tag updateObservedGeneration_unset_head
      cong: list.case_cong option.case_cong if_cong)

text \<open>The conditions under which a spec tag calls for a review, spelled out.\<close>

lemma tagReview_Some_iff:
  "tagReview oldTags stream user (tag, tagRef) = Some (ns, review) \<longleftrightarrow>
     (\<exists>from streamName tagOrID.
        tr_From tagRef = Some from
        \<and> ns = ref_Namespace from \<and> ns \<noteq> [] \<and> ns \<noteq> Namespace stream
        \<and> (oldTags tag = None
             \<or> (\<exists>oldRef. oldTags tag = Some oldRef
                    \<and> tagRefChanged oldRef tagRef (Namespace stream)))
        \<and> parseFromReference stream from = Inr (streamName, tagOrID)
        \<and> review = \<lparr>sar_Verb = ''get'', sar_Resource = ''imagestreams'',
                      sar_ResourceName = streamName, sar_User = user_Name user,
                      sar_Groups = set (user_Groups user)\<rparr>)"
  by (auto simp: tagReview_def split: option.splits sum.splits)

lemma Verify_tag_step:
  "Verify_tag client oldTags stream user (errors, sent) entry =
     (errors @ tagErrors client oldTags stream user entry,
      sent @ (case tagReview oldTags stream user entry of None \<Rightarrow> [] | Some r \<Rightarrow> [r]))"
  by (cases entry)
     (auto simp: Verify_tag_def tagErrors_def tagReview_def denied_def Let_def
       split: option.splits sum.splits prod.splits)

lemma Verify_fold:
  "foldl (Verify_tag client oldTags stream user) (errors, sent) entries =
     (errors @ concat (map (tagErrors client oldTags stream user) entries),
      sent @ List.map_filter (tagReview oldTags stream user) entries)"
proof (induction entries arbitrary: errors sent)
  case Nil
  then show ?case by (simp add: List.map_filter_simps)
next
  case (Cons entry entries)
  show ?case
    by (simp add: Verify_tag_step Cons.IH List.map_filter_simps split: option.splits)
qed

lemma Verify_eq:
  "Verify client old stream user order =
     (concat (map (tagErrors client (oldTagsOf old) stream user) (specTagEntries stream order)),
      List.map_filter (tagReview (oldTagsOf old) stream user) (specTagEntries stream order))"
  by (simp add: Verify_def Verify_fold)

lemma FieldForbidden_in_tagErrors:
  "FieldForbidden field v \<in> set (tagErrors client oldTags stream user entry) \<longleftrightarrow>
     (\<exists>ns review. tagReview oldTags stream user entry = Some (ns, review)
        \<and> denied (client ns review)
        \<and> field = ''spec.tags['' @ fst entry @ ''].from''
        \<and> v = ns @ ''/'' @ sar_ResourceName review)"
  by (auto simp: tagErrors_def tagReview_def split: option.splits sum.splits if_splits)

lemma FieldForbidden_in_Verify:
  "FieldForbidden field v \<in> set (fst (Verify client old stream user order)) \<longleftrightarrow>
     (\<exists>entry \<in> set (specTagEntries stream order).
        FieldForbidden field v \<in> set (tagErrors client (oldTagsOf old) stream user entry))"
  by (simp add: Verify_eq)

lemma FieldInvalid_in_tagErrors:
  "FieldInvalid field v detail \<in> set (tagErrors client oldTags stream user entry) \<longleftrightarrow>
     (\<exists>from err. tr_From (snd entry) = Some from
        \<and> ref_Namespace from \<noteq> [] \<and> ref_Namespace from \<noteq> Namespace stream
        \<and> (oldTags (fst entry) = None
             \<or> (\<exists>oldRef. oldTags (fst entry) = Some oldRef
                    \<and> tagRefChanged oldRef (snd entry) (Namespace stream)))
        \<and> parseFromReference stream from = Inl err
        \<and> field = ''spec.tags['' @ fst entry @ ''].from.name''
        \<and> v = ref_Name from
        \<and> detail = ''must be of the form <tag>, <repo>:<tag>, <id>, or <repo>@<id>'')"
  by (auto simp: tagErrors_def tagReview_def split: option.splits sum.splits if_splits)

lemma FieldInvalid_in_Verify:
  "FieldInvalid field v detail \<in> set (fst (Verify client old stream user order)) \<longleftrightarrow>
     (\<exists>entry \<in> set (specTagEntries stream order).
        FieldInvalid field v detail \<in> set (tagErrors client (oldTagsOf old) stream user entry))"
  by (simp add: Verify_eq)

text \<open>
  Claim C4, as the code has it. The reviews sent are, in the order of the loop, exactly
  those of the spec tags whose \<^verbatim>\<open>from\<close> has a namespace that is set and differs from
  the stream's, that are new or changed against the old spec, and whose reference
  parses; each asks for the verb \<^verbatim>\<open>get\<close> on the parsed stream name in the namespace
  of the \<^verbatim>\<open>from\<close>. The forbidden errors returned are exactly those of the reviews
  that were denied (an error, no response, or a response that does not allow), each
  naming \<^verbatim>\<open>spec.tags[tag].from\<close> and \<^verbatim>\<open>namespace/stream\<close>. The invalid-field errors
  returned are exactly those of the tags that pass the same tests on namespace and
  change but whose reference does not parse, each naming \<^verbatim>\<open>spec.tags[tag].from.name\<close>
  and the name of the \<^verbatim>\<open>from\<close>; for such a tag no review is sent. The list of
  errors is, tag by tag in the order of the loop, made of these two kinds of error
  and of nothing else.
\<close>

theorem Verify_reviews_and_denials:
  "snd (Verify client old stream user order) =
     List.map_filter (tagReview (oldTagsOf old) stream user) (specTagEntries stream order)
   \<and> (\<forall>field v. FieldForbidden field v \<in> set (fst (Verify client old stream user order)) \<longleftrightarrow>
        (\<exists>entry ns review. entry \<in> set (specTagEntries stream order)
           \<and> tagReview (oldTagsOf old) stream user entry = Some (ns, review)
           \<and> denied (client ns review)
           \<and> field = ''spec.tags['' @ fst entry @ ''].from''
           \<and> v = ns @ ''/'' @ sar_ResourceName review))
   \<and> (\<forall>field v detail.
        FieldInvalid field v detail \<in> set (fst (Verify client old stream user order)) \<longleftrightarrow>
        (\<exists>entry from err. entry \<in> set (specTagEntries stream order)
           \<and> tr_From (snd entry) = Some from
           \<and> ref_Namespace from \<noteq> [] \<and> ref_Namespace from \<noteq> Namespace stream
           \<and> (oldTagsOf old (fst entry) = None
                \<or> (\<exists>oldRef. oldTagsOf old (fst entry) = Some oldRef
                       \<and> tagRefChanged oldRef (snd entry) (Namespace stream)))
           \<and> parseFromReference stream from = Inl err
           \<and> tagReview (oldTagsOf old) stream user entry = None
           \<and> field = ''spec.tags['' @ fst entry @ ''].from.name''
           \<and> v = ref_Name from
           \<and> detail = ''must be of the form <tag>, <repo>:<tag>, <id>, or <repo>@<id>''))
   \<and> fst (Verify client old stream user order) =
       concat (map (tagErrors client (oldTagsOf old) stream user) (specTagEntries stream order))
   \<and> (\<forall>entry. length (tagErrors client (oldTagsOf old) stream user entry) \<le> 1
         \<and> (\<forall>e \<in> set (tagErrors client (oldTagsOf old) stream user entry).
               (\<exists>field v. e = FieldForbidden field v)
               \<or> (\<exists>field v detail. e = FieldInvalid field v detail)))"
proof (intro conjI allI)
  show "snd (Verify client old stream user order) =
     List.map_filter (tagReview (oldTagsOf old) stream user) (specTagEntries stream order)"
    by (simp add: Verify_eq)
next
  fix field v
  show "FieldForbidden field v \<in> set (fst (Verify client old stream user order)) \<longleftrightarrow>
        (\<exists>entry ns review. entry \<in> set (specTagEntries stream order)
           \<and> tagReview (oldTagsOf old) stream user entry = Some (ns, review)
           \<and> denied (client ns review)
           \<and> field = ''spec.tags['' @ fst entry @ ''].from''
           \<and> v = ns @ ''/'' @ sar_ResourceName review)"
    unfolding FieldForbidden_in_Verify FieldForbidden_in_tagErrors Bex_def by blast
next
  fix field v detail
  have none: "tagReview (oldTagsOf old) stream user entry = None"
    if "tr_From (snd entry) = Some ref" and "parseFromReference stream ref = Inl err"
    for entry ref err
    using that by (simp add: tagReview_def)
  show "FieldInvalid field v detail \<in> set (fst (Verify client old stream user order)) \<longleftrightarrow>
        (\<exists>entry from err. entry \<in> set (specTagEntries stream order)
           \<and> tr_From (snd entry) = Some from
           \<and> ref_Namespace from \<noteq> [] \<and> ref_Namespace from \<noteq> Namespace stream
           \<and> (oldTagsOf old (fst entry) = None
                \<or> (\<exists>oldRef. oldTagsOf old (fst entry) = Some oldRef
                       \<and> tagRefChanged oldRef (snd entry) (Namespace stream)))
           \<and> parseFromReference stream from = Inl err
           \<and> tagReview (oldTagsOf old) stream user entry = None
           \<and> field = ''spec.tags['' @ fst entry @ ''].from.name''
           \<and> v = ref_Name from
           \<and> detail = ''must be of the form <tag>, <repo>:<tag>, <id>, or <repo>@<id>'')"
    unfolding FieldInvalid_in_Verify FieldInvalid_in_tagErrors Bex_def
    using none by blast
next
  show "fst (Verify client old stream user order) =
       concat (map (tagErrors client (oldTagsOf old) stream user) (specTagEntries stream order))"
    by (simp add: Verify_eq)
next
  fix entry
  show "length (tagErrors client (oldTagsOf old) stream user entry) \<le> 1"
    by (simp add: tagErrors_def split: option.splits)
next
  fix entry
  show "\<forall>e \<in> set (tagErrors client (oldTagsOf old) stream user entry).
               (\<exists>field v. e = FieldForbidden field v)
               \<or> (\<exists>field v detail. e = FieldInvalid field v detail)"
    by (auto simp: tagErrors_def split: option.splits if_splits)
qed

lemma specTagEntries_set:
  "set order = dom (spec_Tags (Spec stream)) \<Longrightarrow>
   set (specTagEntries stream order) = {(tag, ref). spec_Tags (Spec stream) tag = Some ref}"
  by (force simp: specTagEntries_def List.map_filter_def dom_def)


lemma rangeUpdate_simps:
  "rangeUpdate body Map.empty = Map.empty"
  "rangeUpdate body (m(k \<mapsto> v)) = (rangeUpdate body m)(k \<mapsto> body k v)"
  by (auto simp: rangeUpdate_def fun_eq_iff)

theorem create_generation_is_one_witness:
  "Generation (PrepareForCreate sampleRefString sampleStrategy
      (sampleStream 5 (sampleTag ''ImageStreamTag'' (Some 7)) (sampleEvent 3))) = 1
   \<and> spec_Tags (Spec (PrepareForCreate sampleRefString sampleStrategy
        (sampleStream 5 (sampleTag ''ImageStreamTag'' (Some 7)) (sampleEvent 3)))) ''latest''
       = Some (sampleTag ''ImageStreamTag'' (Some 1))
   \<and> spec_Tags (Spec (Internal_PrepareForCreate sampleRefString sampleStrategy
        (sampleStream 5 (sampleTag ''ImageStreamTag'' (Some 7)) (sampleEvent 3)))) ''latest''
       = Some (sampleTag ''ImageStreamTag'' (Some 1))"
proof -
  let ?obj = "sampleStream 5 (sampleTag ''ImageStreamTag'' (Some 7)) (sampleEvent 3)"
  have tag: "spec_Tags (Spec ?obj) ''latest'' = Some (sampleTag ''ImageStreamTag'' (Some 7))"
    by (simp add: sampleStream_def)
  have "(sampleTag ''ImageStreamTag'' (Some 7))\<lparr>tr_Generation := Some 1\<rparr>
          = sampleTag ''ImageStreamTag'' (Some 1)"
    by (simp add: sampleTag_def)
  with tag create_generation_is_one [of sampleRefString sampleStrategy ?obj]
  show ?thesis by auto
qed

theorem create_status_witness:
  "Status (PrepareForCreate sampleRefString sampleStrategy
      (sampleStream 5 (sampleTag ''ImageStreamTag'' (Some 7)) (sampleEvent 3)))
     = \<lparr>status_DockerImageRepository = ''registry.example:5000/default/app'',
        status_Tags = Map.empty\<rparr>
   \<and> status_Tags (Status (Internal_PrepareForCreate sampleRefString sampleStrategy
        (sampleStream 5 (sampleTag ''ImageStreamTag'' (Some 7)) (sampleEvent 3))))
       = [''latest'' \<mapsto> \<lparr>Items = [sampleEvent 3]\<rparr>]
   \<and> status_DockerImageRepository (Status (Internal_PrepareForCreate sampleRefString sampleStrategy
        (sampleStream 5 (sampleTag ''ImageStreamTag'' (Some 7)) (sampleEvent 3))))
       = ''registry.example:5000/default/app''"
  using create_status [of sampleRefString sampleStrategy
      "sampleStream 5 (sampleTag ''ImageStreamTag'' (Some 7)) (sampleEvent 3)"]
  by (simp add: dockerImageRepository_def sampleStream_def sampleStrategy_def
      sampleRefString_def NamespaceDefault_def)

theorem dockerImageRepository_defaults_namespace_witness:
  "snd (defaultRegistry sampleStrategy)
   \<and> Namespace (sampleStream 5 (sampleTag ''ImageStreamTag'' (Some 7)) (sampleEvent 3)) = []
   \<and> Namespace (PrepareForCreate sampleRefString sampleStrategy
        (sampleStream 5 (sampleTag ''ImageStreamTag'' (Some 7)) (sampleEvent 3))) = ''default''
   \<and> Namespace (prepareForUpdate sampleRefString sampleStrategy
        (sampleStream 5 (sampleTag ''ImageStreamTag'' (Some 7)) (sampleEvent 3))
        (sampleStream 4 (sampleTag ''ImageStreamTag'' (Some 2)) (sampleEvent 3)) True) = ''default''
   \<and> Namespace (Decorate sampleRefString sampleStrategy
        (sampleStream 5 (sampleTag ''ImageStreamTag'' (Some 7)) (sampleEvent 3))) = ''default''"
proof -
  let ?obj = "sampleStream 5 (sampleTag ''ImageStreamTag'' (Some 7)) (sampleEvent 3)"
  have ok: "snd (defaultRegistry sampleStrategy)" by (simp add: sampleStrategy_def)
  have ns: "Namespace ?obj = []" by (simp add: sampleStream_def)
  show ?thesis
    using ok ns dockerImageRepository_defaults_namespace [OF ok ns, of sampleRefString
        "sampleStream 4 (sampleTag ''ImageStreamTag'' (Some 2)) (sampleEvent 3)" True]
    by (simp add: NamespaceDefault_def)
qed

theorem status_update_keeps_old_spec_witness:
  "Spec (Status_PrepareForUpdate
      (sampleStream 5 (sampleTag ''DockerImage'' (Some 7)) (sampleEvent 0))
      (sampleStream 4 (sampleTag ''ImageStreamTag'' (Some 2)) (sampleEvent 3)))
   = \<lparr>spec_DockerImageRepository = [],
      spec_Tags = [''latest'' \<mapsto> sampleTag ''ImageStreamTag'' (Some 2)]\<rparr>"
  using status_update_keeps_old_spec
    [of "sampleStream 5 (sampleTag ''DockerImage'' (Some 7)) (sampleEvent 0)"
        "sampleStream 4 (sampleTag ''ImageStreamTag'' (Some 2)) (sampleEvent 3)"]
  by (simp add: sampleStream_def)

theorem creation_timestamp_loop_changes_nothing_witness:
  "\<not> IsZero (CreationTimestamp (sampleStream 1 (sampleTag ''DockerImage'' (Some 1)) (sampleEvent 1)))
   \<and> status_Tags (Status (tagsChanged_creationTimestamp None
        (sampleStream 1 (sampleTag ''DockerImage'' (Some 1)) (sampleEvent 1)))) ''latest''
       = Some \<lparr>Items = [\<lparr>ev_Created = 7,
                           ev_DockerImageReference = ''registry.example/ns/img@sha256:abc'',
                           ev_Image = ''sha256:abc'', ev_Generation = 1\<rparr>]\<rparr>"
proof -
  let ?stream = "sampleStream 1 (sampleTag ''DockerImage'' (Some 1)) (sampleEvent 1)"
  have nz: "\<not> IsZero (CreationTimestamp ?stream)"
    by (simp add: IsZero_def sampleStream_def)
  show ?thesis
    using nz creation_timestamp_loop_changes_nothing [OF refl nz]
    by (simp add: sampleStream_def sampleEvent_def)
qed

theorem tagReferenceToTagEvent_direct_image_and_generation_witness:
  "tagReferenceToTagEvent 42 (\<lambda>stream id. (None, None)) (\<lambda>stream tag. None)
      (sampleStream 1 (sampleTag ''DockerImage'' (Some 4)) (sampleEvent 1))
      \<lparr>tr_From = Some \<lparr>ref_Kind = ''DockerImage'', ref_Namespace = [],
                        ref_Name = ''registry.example/ns/img@sha256:abc''\<rparr>,
       tr_Reference = True, tr_Generation = Some 4\<rparr> []
   = Inr (Some \<lparr>ev_Created = 42,
                ev_DockerImageReference = ''registry.example/ns/img@sha256:abc'',
                ev_Image = [], ev_Generation = 4\<rparr>)"
proof -
  let ?from = "\<lparr>ref_Kind = ''DockerImage'', ref_Namespace = [],
                ref_Name = ''registry.example/ns/img@sha256:abc''\<rparr>"
  let ?tagRef = "\<lparr>tr_From = Some ?from, tr_Reference = True, tr_Generation = Some (4::int64)\<rparr>"
  let ?stream = "sampleStream 1 (sampleTag ''DockerImage'' (Some 4)) (sampleEvent 1)"
  let ?res = "tagReferenceToTagEvent 42 (\<lambda>stream id. (None, None)) (\<lambda>stream tag. None)
                ?stream ?tagRef []"
  from tagReferenceToTagEvent_direct_image_and_generation
         [of ?tagRef ?from 42 "\<lambda>stream id. (None, None)" "\<lambda>stream tag. None" ?stream "[]"]
  obtain ev where ev: "?res = Inr (Some ev)"
    "ev_DockerImageReference ev = ''registry.example/ns/img@sha256:abc''" "ev_Created ev = 42"
    by auto
  from tagReferenceToTagEvent_direct_image_and_generation
         [of ?tagRef ?from 42 "\<lambda>stream id. (None, None)" "\<lambda>stream tag. None" ?stream "[]" ev 4]
    ev
  have "ev_Generation ev = 4" by simp
  moreover have "ev_Image ev = []"
    using ev(1) by (auto simp: tagReferenceToTagEvent_def)
  ultimately show ?thesis using ev by (cases ev) simp
qed

section \<open>Instances and counterexamples\<close>

lemma singleton_map_eq_iff: "[k \<mapsto> a] = [k \<mapsto> b] \<longleftrightarrow> a = b"
  by (auto dest: map_upd_eqD1)

text \<open>
  Spec update preparation on an old stream of generation 4: a tag sent with generation
  0 differs from the old tag and the generation becomes 5; a tag sent with generation 8
  is pinned to the old tag's generation and the generation stays 4.
\<close>

theorem prepareForUpdate_generation_step_witness:
  "Generation (prepareForUpdate sampleRefString sampleStrategy
      (sampleStream 9 (sampleTag ''ImageStreamTag'' (Some 0)) (sampleEvent 3))
      (sampleStream 4 (sampleTag ''ImageStreamTag'' (Some 2)) (sampleEvent 3)) True) = 5
   \<and> Generation (prepareForUpdate sampleRefString sampleStrategy
      (sampleStream 9 (sampleTag ''ImageStreamTag'' (Some 8)) (sampleEvent 3))
      (sampleStream 4 (sampleTag ''ImageStreamTag'' (Some 2)) (sampleEvent 3)) True) = 4"
  using prepareForUpdate_generation_step [of sampleRefString sampleStrategy
      "sampleStream 9 (sampleTag ''ImageStreamTag'' (Some 0)) (sampleEvent 3)"
      "sampleStream 4 (sampleTag ''ImageStreamTag'' (Some 2)) (sampleEvent 3)" True]
    prepareForUpdate_generation_step [of sampleRefString sampleStrategy
      "sampleStream 9 (sampleTag ''ImageStreamTag'' (Some 8)) (sampleEvent 3)"
      "sampleStream 4 (sampleTag ''ImageStreamTag'' (Some 2)) (sampleEvent 3)" True]
  by (simp add: DeepEqual_def updateSpecTagGenerationsForUpdate_def rangeUpdate_simps
      updateSpecTagGeneration_def sampleStream_def sampleTag_def singleton_map_eq_iff)

text \<open>
  Claim C2 as written says that the generation stays equal to the old one whenever the
  pinned spec is deep-equal to the old spec, and that it never decreases. An old stream
  of generation 0 with a deep-equal spec comes out at generation 1, and an old stream
  at the largest \<^verbatim>\<open>int64\<close> with a changed spec wraps around to the smallest.
\<close>

theorem prepareForUpdate_generation_counterexample:
  "DeepEqual (Spec (sampleStream 0 (sampleTag ''ImageStreamTag'' (Some 2)) (sampleEvent 3)))
     (Spec (updateSpecTagGenerationsForUpdate
        (sampleStream 9 (sampleTag ''ImageStreamTag'' (Some 8)) (sampleEvent 3))
        (sampleStream 0 (sampleTag ''ImageStreamTag'' (Some 2)) (sampleEvent 3))))
   \<and> Generation (sampleStream 0 (sampleTag ''ImageStreamTag'' (Some 2)) (sampleEvent 3)) = 0
   \<and> Generation (prepareForUpdate sampleRefString sampleStrategy
        (sampleStream 9 (sampleTag ''ImageStreamTag'' (Some 8)) (sampleEvent 3))
        (sampleStream 0 (sampleTag ''ImageStreamTag'' (Some 2)) (sampleEvent 3)) True) = 1
   \<and> sint (Generation (prepareForUpdate sampleRefString sampleStrategy
        (sampleStream 9 (sampleTag ''ImageStreamTag'' (Some 0)) (sampleEvent 3))
        (sampleStream 9223372036854775807 (sampleTag ''ImageStreamTag'' (Some 2)) (sampleEvent 3))
        True))
       < sint (Generation
        (sampleStream 9223372036854775807 (sampleTag ''ImageStreamTag'' (Some 2)) (sampleEvent 3)))"
  by (simp add: prepareForUpdate_Generation DeepEqual_def updateSpecTagGenerationsForUpdate_def
      rangeUpdate_simps updateSpecTagGeneration_def sampleStream_def sampleTag_def singleton_map_eq_iff)


text \<open>
  A status update whose newest event has generation 0, as has the old newest event of
  the same content: the event is stamped with the stream's generation 5.
\<close>

theorem status_update_stamps_unset_head_witness:
  "status_Tags (Status (Status_PrepareForUpdate
      (sampleStream 5 (sampleTag ''ImageStreamTag'' (Some 7)) (sampleEvent 0))
      (sampleStream 4 (sampleTag ''ImageStreamTag'' (Some 2)) (sampleEvent 0)))) ''latest''
   = Some \<lparr>Items = [sampleEvent 5]\<rparr>"
proof -
  let ?obj = "sampleStream 5 (sampleTag ''ImageStreamTag'' (Some 7)) (sampleEvent 0)"
  let ?old = "sampleStream 4 (sampleTag ''ImageStreamTag'' (Some 2)) (sampleEvent 0)"
  have tag: "status_Tags (Status ?obj) ''latest'' = Some \<lparr>Items = [sampleEvent 0]\<rparr>"
    by (simp add: sampleStream_def)
  have items: "Items \<lparr>Items = [sampleEvent 0]\<rparr> = sampleEvent 0 # []" by simp
  have unset: "ev_Generation (sampleEvent 0) = 0" by (simp add: sampleEvent_def)
  show ?thesis
    using status_update_stamps_unset_head [OF tag items unset, of ?old, THEN conjunct1]
    by (simp add: sampleStream_def sampleEvent_def tagEventListAt_def)
qed

text \<open>
  Claim C3 as written says that a newest event of generation 0 whose image and
  reference equal those of the old newest event is stamped with the generation of the
  stream, and that every other such event is stamped with the generation of its spec
  tag when the spec tag has one. In the first update the old newest event has the same
  image and reference and generation 3, the stream has generation 5 and the old spec
  tag generation 2: the event is stamped with 2. In the second update the old stream
  has no event for the tag at all, so there is no old newest event to be identical to,
  and the old spec tag has generation 2: the event is stamped with the stream's 5.
\<close>

theorem status_update_same_content_counterexample:
  "ev_Image (sampleEvent 0) = ev_Image (sampleEvent 3)
   \<and> ev_DockerImageReference (sampleEvent 0) = ev_DockerImageReference (sampleEvent 3)
   \<and> Generation (sampleStream 5 (sampleTag ''ImageStreamTag'' (Some 7)) (sampleEvent 0)) = 5
   \<and> status_Tags (Status (Status_PrepareForUpdate
        (sampleStream 5 (sampleTag ''ImageStreamTag'' (Some 7)) (sampleEvent 0))
        (sampleStream 4 (sampleTag ''ImageStreamTag'' (Some 2)) (sampleEvent 3)))) ''latest''
      = Some \<lparr>Items = [sampleEvent 2]\<rparr>
   \<and> sampleEvent 2 \<noteq> sampleEvent 5
   \<and> status_Tags (Status (sampleStreamNoHistory 4 (sampleTag ''ImageStreamTag'' (Some 2))))
        ''latest'' = None
   \<and> spec_Tags (Spec (sampleStreamNoHistory 4 (sampleTag ''ImageStreamTag'' (Some 2))))
        ''latest'' = Some (sampleTag ''ImageStreamTag'' (Some 2))
   \<and> status_Tags (Status (Status_PrepareForUpdate
        (sampleStream 5 (sampleTag ''ImageStreamTag'' (Some 7)) (sampleEvent 0))
        (sampleStreamNoHistory 4 (sampleTag ''ImageStreamTag'' (Some 2))))) ''latest''
      = Some \<lparr>Items = [sampleEvent 5]\<rparr>"
  by (simp add: Status_PrepareForUpdate_tag updateObservedGeneration_def tagEventChanged_def
      tagEventListAt_def sampleStream_def sampleStreamNoHistory_def sampleEvent_def
      sampleTag_def)

text \<open>
  A new tag of stream \<^verbatim>\<open>ns/app\<close> that refers to \<^verbatim>\<open>base:v1\<close> in namespace \<^verbatim>\<open>other\<close>: one
  review for \<^verbatim>\<open>get\<close> on \<^verbatim>\<open>base\<close> is sent, and its denial is reported.
\<close>

theorem Verify_reviews_and_denials_witness:
  "snd (Verify denyAll None ((sampleStream 1 (sampleTag ''ImageStreamTag'' None) (sampleEvent 1))\<lparr>Namespace := ''ns''\<rparr>)
          sampleUser [''latest''])
     = [(''other'', \<lparr>sar_Verb = ''get'', sar_Resource = ''imagestreams'',
                      sar_ResourceName = ''base'', sar_User = ''alice'',
                      sar_Groups = {''dev''}\<rparr>)]
   \<and> FieldForbidden ''spec.tags[latest].from'' ''other/base''
       \<in> set (fst (Verify denyAll None
                 ((sampleStream 1 (sampleTag ''ImageStreamTag'' None) (sampleEvent 1))\<lparr>Namespace := ''ns''\<rparr>)
                 sampleUser [''latest'']))"
proof -
  let ?stream = "(sampleStream 1 (sampleTag ''ImageStreamTag'' None) (sampleEvent 1))\<lparr>Namespace := ''ns''\<rparr>"
  let ?review = "\<lparr>sar_Verb = ''get'', sar_Resource = ''imagestreams'',
                  sar_ResourceName = ''base'', sar_User = ''alice'', sar_Groups = {''dev''}\<rparr>"
  have entries: "specTagEntries ?stream [''latest''] = [(''latest'', sampleTag ''ImageStreamTag'' None)]"
    by (simp add: specTagEntries_def List.map_filter_simps sampleStream_def)
  have review: "tagReview (oldTagsOf None) ?stream sampleUser
                  (''latest'', sampleTag ''ImageStreamTag'' None) = Some (''other'', ?review)"
    by (simp add: tagReview_def oldTagsOf_def sampleTag_def sampleStream_def sampleUser_def
        parseFromReference_def splitFromName_def)
  have no: "denied (denyAll ''other'' ?review)"
    by (simp add: denied_def denyAll_def)
  note all = Verify_reviews_and_denials [of denyAll None ?stream sampleUser "[''latest'']"]
  from all [THEN conjunct1] all [THEN conjunct2, THEN conjunct1]
  have sent: "snd (Verify denyAll None ?stream sampleUser [''latest''])
                = List.map_filter (tagReview (oldTagsOf None) ?stream sampleUser)
                    (specTagEntries ?stream [''latest''])"
    and forbidden: "\<And>field v.
       FieldForbidden field v \<in> set (fst (Verify denyAll None ?stream sampleUser [''latest''])) \<longleftrightarrow>
        (\<exists>entry ns review. entry \<in> set (specTagEntries ?stream [''latest''])
           \<and> tagReview (oldTagsOf None) ?stream sampleUser entry = Some (ns, review)
           \<and> denied (denyAll ns review)
           \<and> field = ''spec.tags['' @ fst entry @ ''].from''
           \<and> v = ns @ ''/'' @ sar_ResourceName review)"
    by blast+
  have "FieldForbidden ''spec.tags[latest].from'' ''other/base''
          \<in> set (fst (Verify denyAll None ?stream sampleUser [''latest'']))"
    unfolding forbidden entries
    by (intro exI [of _ "(''latest'', sampleTag ''ImageStreamTag'' None)"] exI [of _ "''other''"]
        exI [of _ ?review]) (simp add: review no)
  then show ?thesis
    by (simp add: sent entries review List.map_filter_simps)
qed

text \<open>
  Claim C4 as written says that a review is sent for every new or changed tag whose
  \<^verbatim>\<open>from\<close> names another namespace. A new tag of kind \<^verbatim>\<open>DockerImage\<close> with the namespace
  \<^verbatim>\<open>other\<close> on a stream in \<^verbatim>\<open>ns\<close> does not parse: an invalid-field error is returned
  and no review is sent.
\<close>

theorem Verify_unparsed_reference_counterexample:
  "tr_From (sampleTag ''DockerImage'' None)
     = Some \<lparr>ref_Kind = ''DockerImage'', ref_Namespace = ''other'', ref_Name = ''base:v1''\<rparr>
   \<and> Namespace ((sampleStream 1 (sampleTag ''DockerImage'' None) (sampleEvent 1))
         \<lparr>Namespace := ''ns''\<rparr>) = ''ns''
   \<and> oldTagsOf None ''latest'' = None
   \<and> Verify denyAll None
        ((sampleStream 1 (sampleTag ''DockerImage'' None) (sampleEvent 1))\<lparr>Namespace := ''ns''\<rparr>)
        sampleUser [''latest'']
      = ([FieldInvalid ''spec.tags[latest].from.name'' ''base:v1''
            ''must be of the form <tag>, <repo>:<tag>, <id>, or <repo>@<id>''], [])"
  by (simp add: Verify_def Verify_tag_def specTagEntries_def List.map_filter_simps oldTagsOf_def
      parseFromReference_def sampleStream_def sampleTag_def)

end
